theory Spec2Isabelle
  imports Complex_Main "HOL-Library.Word"
begin

section \<open>Common types\<close>

text \<open>
  Go's \<open>time.Time\<close> is carried as an integer count of nanoseconds since the zero time, so
  \<open>t.IsZero()\<close> is \<open>t = 0\<close>. \<open>time.Now()\<close> and \<open>uuid.New().String()\<close> are not functions of the
  program state: every call site of the source becomes one explicit argument of the
  embedding, in the order the source evaluates them. A \<open>float64\<close> field is carried as a
  real number; no operation below computes with one beyond the comparison \<open>price <= 0\<close>.
  Go's \<open>int\<close> is the 64-bit two's complement integer of the usual targets: a \<open>64 word\<close>
  whose value is read with \<open>sint\<close>, so that \<open>+\<close> and \<open>-\<close> wrap around as Go's do.
\<close>

type_synonym Time = int
type_synonym bytes = string
type_synonym go_int = "64 word"

definition IsZero :: "Time \<Rightarrow> bool" where
  "IsZero t = (t = 0)"

subsection \<open>pkg/errors\<close>

text \<open>
  \<open>DomainError\<close> carries a code and a message (its \<open>Details\<close> map is created empty by
  every constructor used here). \<open>ExternalError\<close> stands for an error value produced by a
  collaborator outside the repository (bcrypt, encoding/json, GORM, NATS).
\<close>

datatype error = DomainError string string | ExternalError string

definition ErrCodeValidation :: string where "ErrCodeValidation = ''VALIDATION_ERROR''"
definition ErrCodeNotFound :: string where "ErrCodeNotFound = ''NOT_FOUND''"
definition ErrCodeUnauthorized :: string where "ErrCodeUnauthorized = ''UNAUTHORIZED''"
definition ErrCodeConflict :: string where "ErrCodeConflict = ''CONFLICT''"

definition ValidationError :: "string \<Rightarrow> error" where
  "ValidationError message = DomainError ErrCodeValidation message"

definition NotFoundError :: "string \<Rightarrow> error" where
  "NotFoundError message = DomainError ErrCodeNotFound message"

definition UnauthorizedError :: "string \<Rightarrow> error" where
  "UnauthorizedError message = DomainError ErrCodeUnauthorized message"

definition ConflictError :: "string \<Rightarrow> error" where
  "ConflictError message = DomainError ErrCodeConflict message"

section \<open>internal/users/domain: the User aggregate\<close>

text \<open>
  \<open>UserStatus\<close>, \<open>UserRole\<close> and \<open>VerificationStatus\<close> are string types in the source, so a
  value loaded from the store can be any string; the named constants are the ones the
  code writes. Record fields carry a prefix (\<open>u_\<close>, \<open>sp_\<close>) because several structs of the
  repository share field names.
\<close>

type_synonym UserStatus = string
type_synonym UserRole = string
type_synonym VerificationStatus = string

definition UserStatusPending :: UserStatus where "UserStatusPending = ''pending''"
definition UserStatusActive :: UserStatus where "UserStatusActive = ''active''"
definition UserStatusSuspended :: UserStatus where "UserStatusSuspended = ''suspended''"
definition UserStatusDeactive :: UserStatus where "UserStatusDeactive = ''deactive''"

definition UserRoleBuyer :: UserRole where "UserRoleBuyer = ''buyer''"
definition UserRoleSeller :: UserRole where "UserRoleSeller = ''seller''"
definition UserRoleAdmin :: UserRole where "UserRoleAdmin = ''admin''"

definition VerificationStatusPending :: VerificationStatus where
  "VerificationStatusPending = ''pending''"
definition VerificationStatusApproved :: VerificationStatus where
  "VerificationStatusApproved = ''approved''"
definition VerificationStatusRejected :: VerificationStatus where
  "VerificationStatusRejected = ''rejected''"

record SellerProfile =
  sp_ID :: string
  sp_UserID :: string
  sp_BusinessName :: string
  sp_BusinessAddress :: string
  sp_BusinessPhone :: string
  sp_BusinessEmail :: string
  sp_TaxNumber :: string
  sp_VerificationStatus :: VerificationStatus
  sp_VerificationNotes :: string
  sp_Rating :: real
  sp_TotalReviews :: go_int
  sp_CreatedAt :: Time
  sp_UpdatedAt :: Time

record User =
  u_ID :: string
  u_Email :: string
  u_PasswordHash :: string
  u_FirstName :: string
  u_LastName :: string
  u_PhoneNumber :: string
  u_Avatar :: string
  u_Status :: UserStatus
  u_Role :: UserRole
  u_EmailVerified :: bool
  u_PhoneVerified :: bool
  u_VerificationToken :: string
  u_LastLoginAt :: "Time option"
  u_CreatedAt :: Time
  u_UpdatedAt :: Time
  u_SellerProfile :: "SellerProfile option"

text \<open>
  \<open>NewUser\<close>: the four emptiness checks in the source's order, then the bcrypt hash (which
  can fail), then the struct literal. \<open>token\<close> and \<open>new_id\<close> are the two \<open>uuid.New()\<close> results,
  \<open>now1\<close> and \<open>now2\<close> the two clock readings. Fields the literal leaves out take Go's zero
  value.
\<close>

definition NewUser ::
  "(string \<Rightarrow> error + string) \<Rightarrow> string \<Rightarrow> string \<Rightarrow> Time \<Rightarrow> Time \<Rightarrow>
   string \<Rightarrow> string \<Rightarrow> string \<Rightarrow> string \<Rightarrow> error + User" where
  "NewUser GenerateFromPassword token new_id now1 now2 email password firstName lastName =
     (if email = [] then Inl (ValidationError ''email is required'')
      else if password = [] then Inl (ValidationError ''password is required'')
      else if firstName = [] then Inl (ValidationError ''first name is required'')
      else if lastName = [] then Inl (ValidationError ''last name is required'')
      else (case GenerateFromPassword password of
              Inl err \<Rightarrow> Inl err
            | Inr hashedPassword \<Rightarrow>
                Inr \<lparr> u_ID = new_id, u_Email = email, u_PasswordHash = hashedPassword,
                      u_FirstName = firstName, u_LastName = lastName,
                      u_PhoneNumber = [], u_Avatar = [],
                      u_Status = UserStatusPending, u_Role = UserRoleBuyer,
                      u_EmailVerified = False, u_PhoneVerified = False,
                      u_VerificationToken = token, u_LastLoginAt = None,
                      u_CreatedAt = now1, u_UpdatedAt = now2,
                      u_SellerProfile = None \<rparr>))"

text \<open>
  The methods have a pointer receiver and mutate the user in place: the embedding returns
  the user as it is when the method returns, next to the method's own result.
\<close>

definition User_VerifyEmail :: "Time \<Rightarrow> User \<Rightarrow> User" where
  "User_VerifyEmail now u =
     u\<lparr> u_EmailVerified := True, u_Status := UserStatusActive,
        u_VerificationToken := [], u_UpdatedAt := now \<rparr>"

definition User_UpgradeToSeller ::
  "string \<Rightarrow> Time \<Rightarrow> Time \<Rightarrow> Time \<Rightarrow> User \<Rightarrow> string \<Rightarrow> string \<Rightarrow> User \<times> error option" where
  "User_UpgradeToSeller new_id now1 now2 now3 u businessName businessAddress =
     (if u_Role u = UserRoleSeller
        then (u, Some (ValidationError ''user is already a seller''))
      else if \<not> u_EmailVerified u
        then (u, Some (ValidationError ''email must be verified to become a seller''))
      else
        (u\<lparr> u_Role := UserRoleSeller,
            u_SellerProfile := Some
              \<lparr> sp_ID = new_id, sp_UserID = u_ID u,
                sp_BusinessName = businessName, sp_BusinessAddress = businessAddress,
                sp_BusinessPhone = [], sp_BusinessEmail = [], sp_TaxNumber = [],
                sp_VerificationStatus = VerificationStatusPending,
                sp_VerificationNotes = [], sp_Rating = 0, sp_TotalReviews = 0,
                sp_CreatedAt = now1, sp_UpdatedAt = now2 \<rparr>,
            u_UpdatedAt := now3 \<rparr>, None))"

definition User_Suspend :: "Time \<Rightarrow> User \<Rightarrow> string \<Rightarrow> User" where
  "User_Suspend now u reason = u\<lparr> u_Status := UserStatusSuspended, u_UpdatedAt := now \<rparr>"

definition User_Activate :: "Time \<Rightarrow> User \<Rightarrow> User" where
  "User_Activate now u = u\<lparr> u_Status := UserStatusActive, u_UpdatedAt := now \<rparr>"

definition User_UpdateLastLogin :: "Time \<Rightarrow> Time \<Rightarrow> User \<Rightarrow> User" where
  "User_UpdateLastLogin now1 now2 u = u\<lparr> u_LastLoginAt := Some now1, u_UpdatedAt := now2 \<rparr>"

definition User_IsActive :: "User \<Rightarrow> bool" where
  "User_IsActive u = (u_Status u = UserStatusActive)"

definition User_IsSeller :: "User \<Rightarrow> bool" where
  "User_IsSeller u = (u_Role u = UserRoleSeller)"

section \<open>internal/listings/domain: the Listing aggregate\<close>

type_synonym ListingStatus = string
type_synonym Condition = string

definition ListingStatusDraft :: ListingStatus where "ListingStatusDraft = ''draft''"
definition ListingStatusActive :: ListingStatus where "ListingStatusActive = ''active''"
definition ListingStatusInactive :: ListingStatus where "ListingStatusInactive = ''inactive''"
definition ListingStatusSold :: ListingStatus where "ListingStatusSold = ''sold''"
definition ListingStatusExpired :: ListingStatus where "ListingStatusExpired = ''expired''"

text \<open>
  \<open>Category\<close> refers to itself (\<open>Parent *Category\<close>, \<open>Children []Category\<close>), so it is a
  datatype; \<open>zero_Category\<close> is Go's zero value, which \<open>NewListing\<close> leaves in the
  \<open>Category\<close> field.
\<close>

datatype Category = Category
  (cat_ID: string) (cat_Name: string) (cat_Description: string)
  (cat_ParentID: "string option") (cat_Parent: "Category option")
  (cat_Children: "Category list") (cat_ImageURL: string) (cat_IsActive: bool)
  (cat_CreatedAt: Time) (cat_UpdatedAt: Time)

definition zero_Category :: Category where
  "zero_Category = Category [] [] [] None None [] [] False 0 0"

record Location =
  loc_Region :: string
  loc_City :: string
  loc_Area :: string
  loc_Latitude :: real
  loc_Longitude :: real

record ListingImage =
  img_ID :: string
  img_ListingID :: string
  img_URL :: string
  img_Caption :: string
  img_Order :: go_int
  img_CreatedAt :: Time

record ListingAttribute =
  attr_ID :: string
  attr_ListingID :: string
  attr_Key :: string
  attr_Value :: string
  attr_CreatedAt :: Time

record ListingTag =
  tag_ID :: string
  tag_Name :: string
  tag_Color :: string
  tag_CreatedAt :: Time

record Listing =
  l_ID :: string
  l_SellerID :: string
  l_CategoryID :: string
  l_Category :: Category
  l_Title :: string
  l_Description :: string
  l_Price :: real
  l_Currency :: string
  l_Condition :: Condition
  l_Status :: ListingStatus
  l_Location :: Location
  l_Images :: "ListingImage list"
  l_Attributes :: "ListingAttribute list"
  l_Tags :: "ListingTag list"
  l_ViewsCount :: go_int
  l_FavoritesCount :: go_int
  l_IsNegotiable :: bool
  l_IsPromoted :: bool
  l_PromotedUntil :: "Time option"
  l_ExpiresAt :: Time
  l_CreatedAt :: Time
  l_UpdatedAt :: Time

text \<open>
  \<open>NewListing\<close>: \<open>expiresAt\<close> is the value of \<open>time.Now().AddDate(0, 0, 30)\<close>, \<open>new_id\<close> the
  \<open>uuid.New()\<close> result, \<open>now1\<close> and \<open>now2\<close> the clock readings for \<open>CreatedAt\<close> and
  \<open>UpdatedAt\<close>.
\<close>

definition NewListing ::
  "Time \<Rightarrow> string \<Rightarrow> Time \<Rightarrow> Time \<Rightarrow>
   string \<Rightarrow> string \<Rightarrow> string \<Rightarrow> string \<Rightarrow> real \<Rightarrow> Condition \<Rightarrow> Location \<Rightarrow> error + Listing" where
  "NewListing expiresAt new_id now1 now2 sellerID categoryID title description price condition location =
     (if sellerID = [] then Inl (ValidationError ''seller ID is required'')
      else if categoryID = [] then Inl (ValidationError ''category ID is required'')
      else if title = [] then Inl (ValidationError ''title is required'')
      else if price \<le> 0 then Inl (ValidationError ''price must be greater than 0'')
      else Inr \<lparr> l_ID = new_id, l_SellerID = sellerID, l_CategoryID = categoryID,
                 l_Category = zero_Category, l_Title = title, l_Description = description,
                 l_Price = price, l_Currency = ''GHS'', l_Condition = condition,
                 l_Status = ListingStatusDraft, l_Location = location,
                 l_Images = [], l_Attributes = [], l_Tags = [],
                 l_ViewsCount = 0, l_FavoritesCount = 0,
                 l_IsNegotiable = True, l_IsPromoted = False, l_PromotedUntil = None,
                 l_ExpiresAt = expiresAt, l_CreatedAt = now1, l_UpdatedAt = now2 \<rparr>)"

definition Listing_Activate :: "Time \<Rightarrow> Listing \<Rightarrow> Listing \<times> error option" where
  "Listing_Activate now l =
     (if l_Status l = ListingStatusSold
        then (l, Some (ValidationError ''cannot activate sold listing''))
      else (l\<lparr> l_Status := ListingStatusActive, l_UpdatedAt := now \<rparr>, None))"

definition Listing_Deactivate :: "Time \<Rightarrow> Listing \<Rightarrow> Listing" where
  "Listing_Deactivate now l = l\<lparr> l_Status := ListingStatusInactive, l_UpdatedAt := now \<rparr>"

definition Listing_MarkAsSold :: "Time \<Rightarrow> Listing \<Rightarrow> Listing" where
  "Listing_MarkAsSold now l = l\<lparr> l_Status := ListingStatusSold, l_UpdatedAt := now \<rparr>"

text \<open>\<open>l.ViewsCount++\<close> and \<open>l.FavoritesCount++\<close> are Go's wrapping additions on \<open>int\<close>.\<close>

definition Listing_IncrementViews :: "Time \<Rightarrow> Listing \<Rightarrow> Listing" where
  "Listing_IncrementViews now l = l\<lparr> l_ViewsCount := l_ViewsCount l + 1, l_UpdatedAt := now \<rparr>"

definition Listing_IncrementFavorites :: "Time \<Rightarrow> Listing \<Rightarrow> Listing" where
  "Listing_IncrementFavorites now l =
     l\<lparr> l_FavoritesCount := l_FavoritesCount l + 1, l_UpdatedAt := now \<rparr>"

definition Listing_DecrementFavorites :: "Time \<Rightarrow> Listing \<Rightarrow> Listing" where
  "Listing_DecrementFavorites now l =
     (if 0 < sint (l_FavoritesCount l)
        then l\<lparr> l_FavoritesCount := l_FavoritesCount l - 1, l_UpdatedAt := now \<rparr>
      else l)"

text \<open>\<open>Order: len(l.Images)\<close>: the length of a slice as a Go \<open>int\<close>.\<close>

definition Listing_AddImage :: "string \<Rightarrow> Time \<Rightarrow> Time \<Rightarrow> Listing \<Rightarrow> string \<Rightarrow> string \<Rightarrow> Listing" where
  "Listing_AddImage new_id now1 now2 l url caption =
     l\<lparr> l_Images := l_Images l @
            [\<lparr> img_ID = new_id, img_ListingID = l_ID l, img_URL = url, img_Caption = caption,
               img_Order = of_nat (length (l_Images l)), img_CreatedAt = now1 \<rparr>],
        l_UpdatedAt := now2 \<rparr>"

definition Listing_AddAttribute :: "string \<Rightarrow> Time \<Rightarrow> Time \<Rightarrow> Listing \<Rightarrow> string \<Rightarrow> string \<Rightarrow> Listing" where
  "Listing_AddAttribute new_id now1 now2 l k v =
     l\<lparr> l_Attributes := l_Attributes l @
            [\<lparr> attr_ID = new_id, attr_ListingID = l_ID l, attr_Key = k, attr_Value = v,
               attr_CreatedAt = now1 \<rparr>],
        l_UpdatedAt := now2 \<rparr>"

text \<open>\<open>promotedUntil\<close> is the value of \<open>time.Now().Add(duration)\<close>.\<close>

definition Listing_Promote :: "Time \<Rightarrow> Time \<Rightarrow> Listing \<Rightarrow> Listing" where
  "Listing_Promote promotedUntil now l =
     l\<lparr> l_IsPromoted := True, l_PromotedUntil := Some promotedUntil, l_UpdatedAt := now \<rparr>"

text \<open>The invariant of the favourites counter, on the signed reading of the Go \<open>int\<close>.\<close>

definition FavoritesCount_nonneg :: "Listing \<Rightarrow> bool" where
  "FavoritesCount_nonneg l = (0 \<le> sint (l_FavoritesCount l))"

section \<open>pkg/events: the event envelope and the NATS event bus\<close>

text \<open>
  \<open>Metadata map[string]string\<close> is a partial map; \<open>Data json.RawMessage\<close> is a byte string.
\<close>

record Event =
  ev_ID :: string
  ev_Type :: string
  ev_AggregateID :: string
  ev_Data :: bytes
  ev_Metadata :: "string \<rightharpoonup> string"
  ev_Timestamp :: Time

text \<open>
  \<open>encoding/json\<close> is outside the repository: \<open>json.Marshal\<close> and \<open>json.Unmarshal\<close> are
  arguments of the functions that call them, each returning its error or its result.
  \<open>NewEvent\<close> marshals first, then draws the id and reads the clock.
\<close>

definition NewEvent ::
  "('d \<Rightarrow> error + bytes) \<Rightarrow> string \<Rightarrow> Time \<Rightarrow> string \<Rightarrow> string \<Rightarrow> 'd \<Rightarrow> error + Event" where
  "NewEvent json_Marshal new_id now eventType aggregateID d =
     (case json_Marshal d of
        Inl err \<Rightarrow> Inl err
      | Inr dataBytes \<Rightarrow>
          Inr \<lparr> ev_ID = new_id, ev_Type = eventType, ev_AggregateID = aggregateID,
                ev_Data = dataBytes, ev_Metadata = Map.empty, ev_Timestamp = now \<rparr>)"

definition ParseEventData :: "(bytes \<Rightarrow> error + 'd) \<Rightarrow> Event \<Rightarrow> error + 'd" where
  "ParseEventData json_Unmarshal event = json_Unmarshal (ev_Data event)"

subsection \<open>Publish\<close>

text \<open>
  \<open>js.PublishAsync(subject, data)\<close> returns at once with a \<open>PubAckFuture\<close> and an error. The
  error reports that the client could not hand the message over; the future resolves later
  to what the broker answered. The embedding carries the future as the answer it will
  resolve to. \<open>Publish\<close> binds the future to \<open>_\<close> and never reads it.

  The result of \<open>Publish\<close> is the event as the call leaves it (the caller's pointer sees the
  id and the timestamp it filled in), the error it returns, and the \<open>PublishAsync\<close> calls
  it made, each with subject, payload and the future that came back.
\<close>

datatype BrokerAnswer = Stored nat | Refused error

type_synonym PubAckFuture = BrokerAnswer

record PublishResult =
  pub_event :: Event
  pub_error :: "error option"
  pub_sent :: "(string \<times> bytes \<times> PubAckFuture) list"

definition NATSEventBus_Publish ::
  "(Event \<Rightarrow> error + bytes) \<Rightarrow> (string \<Rightarrow> bytes \<Rightarrow> PubAckFuture \<times> error option) \<Rightarrow>
   string \<Rightarrow> Time \<Rightarrow> Event \<Rightarrow> PublishResult" where
  "NATSEventBus_Publish json_Marshal js_PublishAsync new_id now event0 =
     (let event1 = (if ev_ID event0 = [] then event0\<lparr> ev_ID := new_id \<rparr> else event0);
          event = (if IsZero (ev_Timestamp event1) then event1\<lparr> ev_Timestamp := now \<rparr> else event1)
      in case json_Marshal event of
           Inl err \<Rightarrow> \<lparr> pub_event = event, pub_error = Some err, pub_sent = [] \<rparr>
         | Inr data \<Rightarrow>
             (let subject = ''events.'' @ ev_Type event;
                  (future, err) = js_PublishAsync subject data
              in \<lparr> pub_event = event, pub_error = err, pub_sent = [(subject, data, future)] \<rparr>))"

subsection \<open>Subscribe\<close>

text \<open>
  A handler is \<open>func(ctx context.Context, event *Event) error\<close>. What the subscription can
  see of one invocation is whether it returns, after how long, and with which error, or
  that it panics; the embedding gives the handler the context's timeout and gets that
  back. Durations are in milliseconds.
\<close>

datatype HandlerRun = Returns nat "error option" | NeverReturns | Panics

type_synonym EventHandler = "nat \<Rightarrow> Event \<Rightarrow> HandlerRun"

record Msg =
  msg_Subject :: string
  msg_Data :: bytes

datatype MsgReply = Ack | Nak

definition handler_timeout_ms :: nat where
  "handler_timeout_ms = 30 * 1000"

text \<open>
  The callback \<open>Subscribe\<close> hands to JetStream. Its value is the reply it sends for the
  message, or \<open>None\<close> when it never gets to send one because the handler does not return
  or panics (the callback does not recover).
  The handler is called synchronously: the callback waits for it however long it takes,
  and the 30 second context is only passed along.
\<close>

definition on_message ::
  "(bytes \<Rightarrow> error + Event) \<Rightarrow> EventHandler \<Rightarrow> Msg \<Rightarrow> MsgReply option" where
  "on_message json_Unmarshal handler msg =
     (case json_Unmarshal (msg_Data msg) of
        Inl err \<Rightarrow> Some Nak
      | Inr event \<Rightarrow>
          (case handler handler_timeout_ms event of
             NeverReturns \<Rightarrow> None
           | Panics \<Rightarrow> None
           | Returns elapsed (Some err) \<Rightarrow> Some Nak
           | Returns elapsed None \<Rightarrow> Some Ack))"

text \<open>
  \<open>Subscribe\<close> asks JetStream for a subscription on the subject, with the callback and the
  option \<open>nats.Durable("dongome-" + eventType)\<close>, and returns JetStream's error. The result
  holds the request as made.
\<close>

record Subscription =
  sub_subject :: string
  sub_durable :: string
  sub_callback :: "Msg \<Rightarrow> MsgReply option"

definition NATSEventBus_Subscribe ::
  "(bytes \<Rightarrow> error + Event) \<Rightarrow> (Subscription \<Rightarrow> error option) \<Rightarrow>
   string \<Rightarrow> EventHandler \<Rightarrow> Subscription \<times> error option" where
  "NATSEventBus_Subscribe json_Unmarshal js_Subscribe eventType handler =
     (let subject = ''events.'' @ eventType;
          request = \<lparr> sub_subject = subject, sub_durable = ''dongome-'' @ eventType,
                      sub_callback = on_message json_Unmarshal handler \<rparr>
      in (request, js_Subscribe request))"

subsection \<open>The broker, as the specification describes it\<close>

text \<open>
  Modelled from the spec: the JetStream broker's answer to a consumer's reply; the broker
  is not code of the repository. The specification's state machine per envelope and
  durable consumer: \<open>IN_FLIGHT\<close> ends in \<open>ACKNOWLEDGED\<close> when the consumer acknowledges, and
  in \<open>REDELIVER\<close> otherwise (a negative acknowledgement, or no reply before the broker's
  wait runs out).
\<close>

datatype DeliveryState = PENDING_DELIVERY | IN_FLIGHT | ACKNOWLEDGED | REDELIVER

definition broker_after_reply :: "MsgReply option \<Rightarrow> DeliveryState" where
  "broker_after_reply reply = (case reply of Some Ack \<Rightarrow> ACKNOWLEDGED | _ \<Rightarrow> REDELIVER)"

text \<open>
  Modelled from the spec: the JetStream broker's fan-out; the broker is not code of the
  repository. The specification's rule: every durable name on a topic gets one copy of
  each envelope published to the topic, and the subscriptions registered under one
  durable name compete for that copy, the broker picking one of them (\<open>pick\<close>).
  \<open>receivers pick subs topic\<close> lists the positions in \<open>subs\<close> (the subscriptions in the order
  they were made) of those that get a copy of one envelope published to \<open>topic\<close>.
\<close>

definition receivers :: "(nat list \<Rightarrow> nat) \<Rightarrow> Subscription list \<Rightarrow> string \<Rightarrow> nat list" where
  "receivers pick subs topic =
     (let on_topic = filter (\<lambda>i. sub_subject (subs ! i) = topic) [0..<length subs];
          durables = remdups (map (\<lambda>i. sub_durable (subs ! i)) on_topic)
      in map (\<lambda>d. pick (filter (\<lambda>i. sub_durable (subs ! i) = d) on_topic)) durables)"

section \<open>internal/users/domain: event types and payloads\<close>

definition UserRegisteredEvent :: string where
  "UserRegisteredEvent = ''user.registered''"
definition UserEmailVerifiedEvent :: string where
  "UserEmailVerifiedEvent = ''user.email_verified''"
definition UserUpgradedToSellerEvent :: string where
  "UserUpgradedToSellerEvent = ''user.upgraded_to_seller''"

record UserRegistered =
  ur_UserID :: string
  ur_Email :: string
  ur_FirstName :: string
  ur_LastName :: string
  ur_Role :: UserRole
  ur_VerificationToken :: string
  ur_Timestamp :: Time

record UserEmailVerified =
  uev_UserID :: string
  uev_Email :: string
  uev_Timestamp :: Time

record UserUpgradedToSeller =
  uus_UserID :: string
  uus_Email :: string
  uus_BusinessName :: string
  uus_Timestamp :: Time

text \<open>The payloads the application service passes to \<open>NewEvent\<close> as \<open>data interface{}\<close>.\<close>

datatype Fact =
  FactUserRegistered UserRegistered
| FactUserEmailVerified UserEmailVerified
| FactUserUpgradedToSeller UserUpgradedToSeller

section \<open>internal/users/app: the application service\<close>

text \<open>
  The service holds two interfaces. \<open>UserRepository\<close> is a record of its methods; \<open>Save\<close> and
  \<open>Update\<close> take a pointer, so they return the user as the call leaves it next to their
  error, and the finders return a possibly nil user next to their error. Of \<open>EventBus\<close> the
  service calls \<open>Publish\<close> only: \<open>Event \<Rightarrow> error option\<close>.

  \<open>Runtime\<close> gathers what an operation draws from outside the program: \<open>rt_uuid k\<close> and
  \<open>rt_now k\<close> are the results of its k-th call of \<open>uuid.New()\<close> and of \<open>time.Now()\<close> (counted
  from 0, in the order of evaluation), \<open>rt_bcrypt\<close> is \<open>bcrypt.GenerateFromPassword\<close> and
  \<open>rt_json_Marshal\<close> is \<open>json.Marshal\<close> on the payloads.

  Every operation returns its result and the calls it made on its collaborators, in
  order, each with what the call returned. A nil pointer dereference is \<open>Panic\<close>.
\<close>

record UserRepository =
  repo_Save :: "User \<Rightarrow> User \<times> error option"
  repo_FindByID :: "string \<Rightarrow> User option \<times> error option"
  repo_FindByEmail :: "string \<Rightarrow> User option \<times> error option"
  repo_FindByVerificationToken :: "string \<Rightarrow> User option \<times> error option"
  repo_Update :: "User \<Rightarrow> User \<times> error option"
  repo_Delete :: "string \<Rightarrow> error option"

record Runtime =
  rt_uuid :: "nat \<Rightarrow> string"
  rt_now :: "nat \<Rightarrow> Time"
  rt_bcrypt :: "string \<Rightarrow> error + string"
  rt_json_Marshal :: "Fact \<Rightarrow> error + bytes"

datatype Call =
  FindByIDCall string
| FindByEmailCall string
| FindByVerificationTokenCall string
| SaveCall User User "error option"
| UpdateCall User User "error option"
| PublishCall Event "error option"

datatype 'a Outcome = Return 'a | Panic

record RegisterUserCommand =
  reg_Email :: string
  reg_Password :: string
  reg_FirstName :: string
  reg_LastName :: string

record UpgradeToSellerCommand =
  upg_UserID :: string
  upg_BusinessName :: string
  upg_BusinessAddress :: string

definition UserService_RegisterUser ::
  "UserRepository \<Rightarrow> (Event \<Rightarrow> error option) \<Rightarrow> Runtime \<Rightarrow> RegisterUserCommand \<Rightarrow>
   (User option \<times> error option) \<times> Call list" where
  "UserService_RegisterUser userRepo bus_Publish rt cmd =
     (let (existing, _) = repo_FindByEmail userRepo (reg_Email cmd);
          calls0 = [FindByEmailCall (reg_Email cmd)]
      in if existing \<noteq> None
           then ((None, Some (ConflictError ''user with this email already exists'')), calls0)
         else
           (case NewUser (rt_bcrypt rt) (rt_uuid rt 0) (rt_uuid rt 1) (rt_now rt 0) (rt_now rt 1)
                   (reg_Email cmd) (reg_Password cmd) (reg_FirstName cmd) (reg_LastName cmd) of
              Inl err \<Rightarrow> ((None, Some err), calls0)
            | Inr user0 \<Rightarrow>
                (let (user, save_err) = repo_Save userRepo user0;
                     calls1 = calls0 @ [SaveCall user0 user save_err]
                 in case save_err of
                      Some err \<Rightarrow> ((None, Some err), calls1)
                    | None \<Rightarrow>
                        (case NewEvent (rt_json_Marshal rt) (rt_uuid rt 2) (rt_now rt 3)
                                UserRegisteredEvent (u_ID user)
                                (FactUserRegistered
                                   \<lparr> ur_UserID = u_ID user, ur_Email = u_Email user,
                                     ur_FirstName = u_FirstName user, ur_LastName = u_LastName user,
                                     ur_Role = u_Role user,
                                     ur_VerificationToken = u_VerificationToken user,
                                     ur_Timestamp = rt_now rt 2 \<rparr>) of
                           Inl err \<Rightarrow> ((None, Some err), calls1)
                         | Inr event \<Rightarrow>
                             ((Some user, None),
                              calls1 @ [PublishCall event (bus_Publish event)])))))"

definition UserService_VerifyEmail ::
  "UserRepository \<Rightarrow> (Event \<Rightarrow> error option) \<Rightarrow> Runtime \<Rightarrow> string \<Rightarrow>
   (error option) Outcome \<times> Call list" where
  "UserService_VerifyEmail userRepo bus_Publish rt token =
     (let (found, find_err) = repo_FindByVerificationToken userRepo token;
          calls0 = [FindByVerificationTokenCall token]
      in if find_err \<noteq> None
           then (Return (Some (NotFoundError ''invalid verification token'')), calls0)
         else
           (case found of
              None \<Rightarrow> (Panic, calls0)
            | Some user0 \<Rightarrow>
                (let user1 = User_VerifyEmail (rt_now rt 0) user0;
                     (user, update_err) = repo_Update userRepo user1;
                     calls1 = calls0 @ [UpdateCall user1 user update_err]
                 in case update_err of
                      Some err \<Rightarrow> (Return (Some err), calls1)
                    | None \<Rightarrow>
                        (case NewEvent (rt_json_Marshal rt) (rt_uuid rt 0) (rt_now rt 2)
                                UserEmailVerifiedEvent (u_ID user)
                                (FactUserEmailVerified
                                   \<lparr> uev_UserID = u_ID user, uev_Email = u_Email user,
                                     uev_Timestamp = rt_now rt 1 \<rparr>) of
                           Inl err \<Rightarrow> (Return (Some err), calls1)
                         | Inr event \<Rightarrow>
                             (let publish_err = bus_Publish event
                              in (Return publish_err,
                                  calls1 @ [PublishCall event publish_err]))))))"

definition UserService_UpgradeToSeller ::
  "UserRepository \<Rightarrow> (Event \<Rightarrow> error option) \<Rightarrow> Runtime \<Rightarrow> UpgradeToSellerCommand \<Rightarrow>
   (error option) Outcome \<times> Call list" where
  "UserService_UpgradeToSeller userRepo bus_Publish rt cmd =
     (let (found, find_err) = repo_FindByID userRepo (upg_UserID cmd);
          calls0 = [FindByIDCall (upg_UserID cmd)]
      in if find_err \<noteq> None
           then (Return (Some (NotFoundError ''user not found'')), calls0)
         else
           (case found of
              None \<Rightarrow> (Panic, calls0)
            | Some user0 \<Rightarrow>
                (case User_UpgradeToSeller (rt_uuid rt 0) (rt_now rt 0) (rt_now rt 1) (rt_now rt 2)
                        user0 (upg_BusinessName cmd) (upg_BusinessAddress cmd) of
                   (_, Some err) \<Rightarrow> (Return (Some err), calls0)
                 | (user1, None) \<Rightarrow>
                     (let (user, update_err) = repo_Update userRepo user1;
                          calls1 = calls0 @ [UpdateCall user1 user update_err]
                      in case update_err of
                           Some err \<Rightarrow> (Return (Some err), calls1)
                         | None \<Rightarrow>
                             (case NewEvent (rt_json_Marshal rt) (rt_uuid rt 1) (rt_now rt 4)
                                     UserUpgradedToSellerEvent (u_ID user)
                                     (FactUserUpgradedToSeller
                                        \<lparr> uus_UserID = u_ID user, uus_Email = u_Email user,
                                          uus_BusinessName = upg_BusinessName cmd,
                                          uus_Timestamp = rt_now rt 3 \<rparr>) of
                                Inl err \<Rightarrow> (Return (Some err), calls1)
                              | Inr event \<Rightarrow>
                                  (let publish_err = bus_Publish event
                                   in (Return publish_err,
                                       calls1 @ [PublishCall event publish_err])))))))"

section \<open>Concrete inputs\<close>

text \<open>
  The values the concrete runs below are evaluated at. \<open>user0\<close> is the user
  \<open>NewUser\<close> builds for John Doe; \<open>listing0\<close> the listing \<open>NewListing\<close> builds for a bicycle.
\<close>

definition user0 :: User where
  "user0 =
     \<lparr> u_ID = ''uuid-1'', u_Email = ''john.doe@example.com'',
       u_PasswordHash = ''$2a$10$password123'',
       u_FirstName = ''John'', u_LastName = ''Doe'', u_PhoneNumber = [], u_Avatar = [],
       u_Status = UserStatusPending, u_Role = UserRoleBuyer,
       u_EmailVerified = False, u_PhoneVerified = False,
       u_VerificationToken = ''uuid-0'', u_LastLoginAt = None,
       u_CreatedAt = 1000, u_UpdatedAt = 1001, u_SellerProfile = None \<rparr>"

definition location0 :: Location where
  "location0 =
     \<lparr> loc_Region = ''Greater Accra'', loc_City = ''Accra'', loc_Area = ''Osu'',
       loc_Latitude = 0, loc_Longitude = 0 \<rparr>"

definition listing0 :: Listing where
  "listing0 =
     \<lparr> l_ID = ''L1'', l_SellerID = ''uuid-1'', l_CategoryID = ''C1'',
       l_Category = zero_Category, l_Title = ''Bicycle'', l_Description = ''A red bicycle'',
       l_Price = 250, l_Currency = ''GHS'', l_Condition = ''good'',
       l_Status = ListingStatusDraft, l_Location = location0,
       l_Images = [], l_Attributes = [], l_Tags = [],
       l_ViewsCount = 0, l_FavoritesCount = 0,
       l_IsNegotiable = True, l_IsPromoted = False, l_PromotedUntil = None,
       l_ExpiresAt = 2593000, l_CreatedAt = 1000, l_UpdatedAt = 1001 \<rparr>"

text \<open>The largest Go \<open>int\<close>, and \<open>listing0\<close> with that many favourites.\<close>

definition MaxInt :: go_int where
  "MaxInt = 0x7FFFFFFFFFFFFFFF"

definition listing_max :: Listing where
  "listing_max = listing0\<lparr> l_FavoritesCount := MaxInt \<rparr>"

text \<open>
  Stand-ins for \<open>encoding/json\<close>, for the concrete runs only. They write the string fields
  of a value as a JSON object and leave timestamps and metadata out; \<open>dq\<close> is the double
  quote. The decoder knows the one message the runs deliver.
\<close>

definition dq :: char where
  "dq = CHR 0x22"

definition json_string :: "string \<Rightarrow> bytes" where
  "json_string s = dq # s @ [dq]"

definition json_field :: "string \<Rightarrow> string \<Rightarrow> bytes" where
  "json_field k v = json_string k @ '':'' @ json_string v"

text \<open>
  The stand-in codec for a Go string of printable ASCII and of bytes \<open>0xFF\<close>. As
  \<open>encoding/json\<close> does with a byte that is not valid UTF-8, the encoder writes the escape
  of U+FFFD in its place (\<open>ufffd_escape\<close>: a backslash and \<open>ufffd\<close>), and the decoder turns
  that escape into the three bytes of U+FFFD in UTF-8 (\<open>ufffd_utf8\<close>).
\<close>

definition ufffd_escape :: string where
  "ufffd_escape = [CHR 0x5C, CHR ''u'', CHR ''f'', CHR ''f'', CHR ''f'', CHR ''d'']"

definition ufffd_utf8 :: string where
  "ufffd_utf8 = [CHR 0xEF, CHR 0xBF, CHR 0xBD]"

definition escape_invalid :: "string \<Rightarrow> string" where
  "escape_invalid s = concat (map (\<lambda>c. if c = CHR 0xFF then ufffd_escape else [c]) s)"

fun unescape :: "string \<Rightarrow> string" where
  "unescape (c1 # c2 # c3 # c4 # c5 # c6 # rest) =
     (if [c1, c2, c3, c4, c5, c6] = ufffd_escape then ufffd_utf8 @ unescape rest
      else c1 # unescape (c2 # c3 # c4 # c5 # c6 # rest))"
| "unescape cs = cs"

definition stub_Marshal_string :: "string \<Rightarrow> error + bytes" where
  "stub_Marshal_string s = Inr (json_string (escape_invalid s))"

definition stub_Unmarshal_string :: "bytes \<Rightarrow> error + string" where
  "stub_Unmarshal_string bs =
     (case bs of
        [] \<Rightarrow> Inl (ExternalError ''unexpected end of JSON input'')
      | c # rest \<Rightarrow>
          (if c = dq \<and> rest \<noteq> [] \<and> last rest = dq then Inr (unescape (butlast rest))
           else Inl (ExternalError ''invalid character'')))"

text \<open>The event \<open>NewEvent\<close> builds for the one-byte string \<open>0xFF\<close> as payload.\<close>

definition event_ff :: Event where
  "event_ff =
     \<lparr> ev_ID = ''uuid-2'', ev_Type = ''user.registered'', ev_AggregateID = ''uuid-1'',
       ev_Data = dq # ufffd_escape @ [dq], ev_Metadata = Map.empty, ev_Timestamp = 1003 \<rparr>"

fun stub_Marshal_Fact :: "Fact \<Rightarrow> error + bytes" where
  "stub_Marshal_Fact (FactUserRegistered r) =
     Inr (''{'' @ json_field ''user_id'' (ur_UserID r) @ '','' @ json_field ''email'' (ur_Email r)
          @ '','' @ json_field ''first_name'' (ur_FirstName r)
          @ '','' @ json_field ''last_name'' (ur_LastName r)
          @ '','' @ json_field ''role'' (ur_Role r)
          @ '','' @ json_field ''verification_token'' (ur_VerificationToken r) @ ''}'')"
| "stub_Marshal_Fact (FactUserEmailVerified r) =
     Inr (''{'' @ json_field ''user_id'' (uev_UserID r) @ '','' @ json_field ''email'' (uev_Email r)
          @ ''}'')"
| "stub_Marshal_Fact (FactUserUpgradedToSeller r) =
     Inr (''{'' @ json_field ''user_id'' (uus_UserID r) @ '','' @ json_field ''email'' (uus_Email r)
          @ '','' @ json_field ''business_name'' (uus_BusinessName r) @ ''}'')"

definition stub_Marshal_Event :: "Event \<Rightarrow> error + bytes" where
  "stub_Marshal_Event e =
     Inr (''{'' @ json_field ''id'' (ev_ID e) @ '','' @ json_field ''type'' (ev_Type e)
          @ '','' @ json_field ''aggregate_id'' (ev_AggregateID e)
          @ '','' @ json_string ''data'' @ '':'' @ ev_Data e @ ''}'')"

definition fact0 :: Fact where
  "fact0 = FactUserRegistered
     \<lparr> ur_UserID = ''uuid-1'', ur_Email = ''john.doe@example.com'', ur_FirstName = ''John'',
       ur_LastName = ''Doe'', ur_Role = UserRoleBuyer, ur_VerificationToken = ''uuid-0'',
       ur_Timestamp = 1002 \<rparr>"

definition data_of :: "error + bytes \<Rightarrow> bytes" where
  "data_of r = (case r of Inr bs \<Rightarrow> bs | Inl err \<Rightarrow> [])"

definition event0 :: Event where
  "event0 =
     \<lparr> ev_ID = ''uuid-2'', ev_Type = ''user.registered'', ev_AggregateID = ''uuid-1'',
       ev_Data = data_of (stub_Marshal_Fact fact0), ev_Metadata = Map.empty,
       ev_Timestamp = 1003 \<rparr>"

definition stub_Unmarshal_Event :: "bytes \<Rightarrow> error + Event" where
  "stub_Unmarshal_Event bs =
     (if stub_Marshal_Event event0 = Inr bs then Inr event0
      else Inl (ExternalError ''invalid character''))"

definition wire0 :: bytes where
  "wire0 = data_of (stub_Marshal_Event event0)"

definition msg0 :: Msg where
  "msg0 = \<lparr> msg_Subject = ''events.user.registered'', msg_Data = wire0 \<rparr>"

definition msg_bad :: Msg where
  "msg_bad = \<lparr> msg_Subject = ''events.user.registered'', msg_Data = ''not json'' \<rparr>"

definition js_refusing :: "string \<Rightarrow> bytes \<Rightarrow> PubAckFuture \<times> error option" where
  "js_refusing subject data = (Refused (ExternalError ''nats: no response from stream''), None)"

definition slow_handler :: EventHandler where
  "slow_handler timeout_ms event = Returns 40000 None"

definition failing_handler :: EventHandler where
  "failing_handler timeout_ms event = Returns 10 (Some (ExternalError ''handler failed''))"

definition hanging_handler :: EventHandler where
  "hanging_handler timeout_ms event = NeverReturns"

definition cancelled_handler :: EventHandler where
  "cancelled_handler timeout_ms event =
     Returns timeout_ms (Some (ExternalError ''context deadline exceeded''))"

definition notifications_handler :: EventHandler where
  "notifications_handler timeout_ms event = Returns 500 None"

definition analytics_handler :: EventHandler where
  "analytics_handler timeout_ms event = Returns 300 None"

definition js_Subscribe_ok :: "Subscription \<Rightarrow> error option" where
  "js_Subscribe_ok request = None"

text \<open>
  Stand-ins for the service's collaborators: a store with no user, a store holding one
  user, a bus whose \<open>Publish\<close> fails, and the runtime whose clock starts at \<open>base\<close>.
\<close>

definition repo_empty :: UserRepository where
  "repo_empty =
     \<lparr> repo_Save = (\<lambda>u. (u, None)),
       repo_FindByID = (\<lambda>i. (None, Some (NotFoundError ''user not found''))),
       repo_FindByEmail = (\<lambda>e. (None, Some (NotFoundError ''user not found''))),
       repo_FindByVerificationToken = (\<lambda>t. (None, Some (NotFoundError ''user not found''))),
       repo_Update = (\<lambda>u. (u, None)),
       repo_Delete = (\<lambda>i. None) \<rparr>"

definition repo_with :: "User \<Rightarrow> UserRepository" where
  "repo_with stored =
     \<lparr> repo_Save = (\<lambda>u. (u, None)),
       repo_FindByID = (\<lambda>i. if i = u_ID stored then (Some stored, None)
                               else (None, Some (NotFoundError ''user not found''))),
       repo_FindByEmail = (\<lambda>e. if e = u_Email stored then (Some stored, None)
                                  else (None, Some (NotFoundError ''user not found''))),
       repo_FindByVerificationToken =
         (\<lambda>t. if t = u_VerificationToken stored then (Some stored, None)
              else (None, Some (NotFoundError ''user not found''))),
       repo_Update = (\<lambda>u. (u, None)),
       repo_Delete = (\<lambda>i. None) \<rparr>"

definition bus_down :: "Event \<Rightarrow> error option" where
  "bus_down event = Some (ExternalError ''nats: connection closed'')"

definition rt_at :: "Time \<Rightarrow> Runtime" where
  "rt_at base =
     \<lparr> rt_uuid = (\<lambda>k. if k = 0 then ''uuid-0'' else if k = 1 then ''uuid-1'' else ''uuid-2''),
       rt_now = (\<lambda>k. base + int k),
       rt_bcrypt = (\<lambda>password. Inr (''$2a$10$'' @ password)),
       rt_json_Marshal = stub_Marshal_Fact \<rparr>"

definition cmd0 :: RegisterUserCommand where
  "cmd0 =
     \<lparr> reg_Email = ''john.doe@example.com'', reg_Password = ''password123'',
       reg_FirstName = ''John'', reg_LastName = ''Doe'' \<rparr>"

definition user0_verified :: User where
  "user0_verified =
     user0\<lparr> u_EmailVerified := True, u_Status := UserStatusActive, u_VerificationToken := [],
            u_UpdatedAt := 2000 \<rparr>"

definition event_verified :: Event where
  "event_verified =
     \<lparr> ev_ID = ''uuid-0'', ev_Type = ''user.email_verified'', ev_AggregateID = ''uuid-1'',
       ev_Data = data_of (stub_Marshal_Fact (FactUserEmailVerified
         \<lparr> uev_UserID = ''uuid-1'', uev_Email = ''john.doe@example.com'',
           uev_Timestamp = 2001 \<rparr>)),
       ev_Metadata = Map.empty, ev_Timestamp = 2002 \<rparr>"

definition upg0 :: UpgradeToSellerCommand where
  "upg0 =
     \<lparr> upg_UserID = ''uuid-1'', upg_BusinessName = ''Test Business'',
       upg_BusinessAddress = ''123 Business St'' \<rparr>"

lemmas stub_defs = data_of_def fact0_def dq_def json_string_def json_field_def stub_Marshal_string_def
  stub_Unmarshal_string_def stub_Marshal_Event_def event0_def stub_Unmarshal_Event_def wire0_def
  msg0_def msg_bad_def js_refusing_def

section \<open>Helper lemmas\<close>

lemma NewListing_listing0:
  "NewListing 2593000 ''L1'' 1000 1001 ''uuid-1'' ''C1'' ''Bicycle'' ''A red bicycle'' 250 ''good''
     location0 = Inr listing0"
  by (simp add: NewListing_def listing0_def)

lemma sint_dec: "0 < sint (x::go_int) \<Longrightarrow> sint (x - 1) = sint x - 1"
proof -
  assume pos: "0 < sint x"
  have lt: "sint x < 2 ^ 63" using sint_lt [of x] by simp
  have "sint (x - 1) = signed_take_bit 63 (sint x - 1)"
    by (simp add: sint_word_ariths)
  also have "\<dots> = sint x - 1"
    using pos lt by (intro signed_take_bit_int_eq_self) auto
  finally show ?thesis .
qed

lemma sint_inc:
  "0 \<le> sint (x::go_int) \<Longrightarrow> sint x < 2 ^ 63 - 1 \<Longrightarrow> sint (x + 1) = sint x + 1"
proof -
  assume nonneg: "0 \<le> sint x" and lt: "sint x < 2 ^ 63 - 1"
  have "sint (x + 1) = signed_take_bit 63 (sint x + 1)"
    by (simp add: sint_word_ariths)
  also have "\<dots> = sint x + 1"
    using nonneg lt by (intro signed_take_bit_int_eq_self) auto
  finally show ?thesis .
qed

lemma DecrementFavorites_nonneg:
  "FavoritesCount_nonneg l \<Longrightarrow> FavoritesCount_nonneg (Listing_DecrementFavorites now l)"
  by (simp add: FavoritesCount_nonneg_def Listing_DecrementFavorites_def sint_dec)

lemma DecrementFavorites_fold_nonneg:
  "FavoritesCount_nonneg l \<Longrightarrow> FavoritesCount_nonneg (fold Listing_DecrementFavorites nows l)"
  by (induction nows arbitrary: l) (simp_all add: DecrementFavorites_nonneg)

lemma IncrementFavorites_nonneg:
  "FavoritesCount_nonneg l \<Longrightarrow> sint (l_FavoritesCount l) < 2 ^ 63 - 1 \<Longrightarrow>
   FavoritesCount_nonneg (Listing_IncrementFavorites now l)"
  by (simp add: FavoritesCount_nonneg_def Listing_IncrementFavorites_def sint_inc)

lemma NewListing_nonneg:
  "NewListing expiresAt new_id now1 now2 sellerID categoryID title description price condition
     location = Inr l \<Longrightarrow> FavoritesCount_nonneg l"
  by (auto simp: NewListing_def FavoritesCount_nonneg_def split: if_splits)

lemma other_operations_nonneg:
  assumes "FavoritesCount_nonneg l"
  shows "FavoritesCount_nonneg (fst (Listing_Activate now l))"
    and "FavoritesCount_nonneg (Listing_Deactivate now l)"
    and "FavoritesCount_nonneg (Listing_MarkAsSold now l)"
    and "FavoritesCount_nonneg (Listing_IncrementViews now l)"
    and "FavoritesCount_nonneg (Listing_AddImage new_id now1 now2 l url caption)"
    and "FavoritesCount_nonneg (Listing_AddAttribute new_id now1 now2 l k v)"
    and "FavoritesCount_nonneg (Listing_Promote promotedUntil now l)"
  using assms
  by (simp_all add: FavoritesCount_nonneg_def Listing_Activate_def Listing_Deactivate_def
      Listing_MarkAsSold_def Listing_IncrementViews_def Listing_AddImage_def
      Listing_AddAttribute_def Listing_Promote_def)

lemma Subscribe_same_type_one_receiver:
  "receivers pick
     [fst (NATSEventBus_Subscribe u1 j1 eventType h1),
      fst (NATSEventBus_Subscribe u2 j2 eventType h2)]
     (''events.'' @ eventType) = [pick [0, 1]]"
  by (simp add: receivers_def NATSEventBus_Subscribe_def Let_def upt_rec)

lemma distinct_durables_fan_out:
  "d1 \<noteq> d2 \<Longrightarrow>
   receivers pick
     [\<lparr> sub_subject = topic, sub_durable = d1, sub_callback = c1 \<rparr>,
      \<lparr> sub_subject = topic, sub_durable = d2, sub_callback = c2 \<rparr>] topic = [pick [0], pick [1]]"
  by (simp add: receivers_def Let_def upt_rec)

subsection \<open>The tested behaviour of the User aggregate\<close>

text \<open>
  What \<open>user_test.go\<close> checks of \<open>NewUser\<close> and of \<open>UpgradeToSeller\<close>, for every input: a
  user that \<open>NewUser\<close> returns is a pending, unverified buyer with the given names; a
  verified user who is not a seller can upgrade, gets the seller role and a pending
  profile, and cannot upgrade again.
\<close>

lemma NewUser_result:
  "NewUser GenerateFromPassword token new_id now1 now2 email password firstName lastName = Inr u \<Longrightarrow>
   email \<noteq> [] \<and> password \<noteq> [] \<and> firstName \<noteq> [] \<and> lastName \<noteq> [] \<and>
   u_Email u = email \<and> u_FirstName u = firstName \<and> u_LastName u = lastName \<and>
   u_Status u = UserStatusPending \<and> u_Role u = UserRoleBuyer \<and>
   \<not> u_EmailVerified u \<and> \<not> u_PhoneVerified u \<and>
   u_ID u = new_id \<and> u_VerificationToken u = token \<and>
   GenerateFromPassword password = Inr (u_PasswordHash u)"
  by (auto simp: NewUser_def split: if_splits sum.splits)

lemma UpgradeToSeller_after_verification:
  assumes "u_Role u \<noteq> UserRoleSeller" and "u_EmailVerified u"
  shows "\<exists>u' p. User_UpgradeToSeller new_id now1 now2 now3 u businessName businessAddress = (u', None) \<and>
     u_Role u' = UserRoleSeller \<and> u_SellerProfile u' = Some p \<and>
     sp_UserID p = u_ID u \<and> sp_BusinessName p = businessName \<and>
     sp_BusinessAddress p = businessAddress \<and>
     sp_VerificationStatus p = VerificationStatusPending \<and>
     snd (User_UpgradeToSeller new_id' now1' now2' now3' u' businessName' businessAddress') =
       Some (ValidationError ''user is already a seller'')"
  using assms by (simp add: User_UpgradeToSeller_def)

subsection \<open>The application service and a failing publish\<close>

text \<open>
  \<open>RegisterUser\<close> ignores what \<open>Publish\<close> returns: its result is the same for any two
  buses. \<open>UpgradeToSeller\<close> does not: with a verified buyer in the store, a successful
  \<open>Update\<close> and a bus that is down, it returns the error of \<open>Publish\<close>.
\<close>

lemma RegisterUser_result_ignores_publish:
  "fst (UserService_RegisterUser userRepo bus1 rt cmd) =
   fst (UserService_RegisterUser userRepo bus2 rt cmd)"
  by (simp add: UserService_RegisterUser_def Let_def split: prod.splits sum.splits option.splits)

lemma UpgradeToSeller_fails_when_publish_fails:
  "fst (UserService_UpgradeToSeller (repo_with user0_verified) bus_down (rt_at 3000) upg0) =
     Return (Some (ExternalError ''nats: connection closed'')) \<and>
   (\<exists>before after. UpdateCall before after None \<in>
      set (snd (UserService_UpgradeToSeller (repo_with user0_verified) bus_down (rt_at 3000) upg0)))"
  by (simp add: UserService_UpgradeToSeller_def repo_with_def bus_down_def rt_at_def user0_def
      user0_verified_def upg0_def User_UpgradeToSeller_def NewEvent_def UserRoleBuyer_def
      UserRoleSeller_def Let_def)

subsection \<open>The envelope and a codec that round-trips\<close>

text \<open>
  Where the codec gives a value back from its own encoding, so does the envelope; the
  stand-in codec does for an e-mail address.
\<close>

lemma roundtrip_when_codec_roundtrips:
  "json_Marshal d = Inr encoded \<Longrightarrow> json_Unmarshal encoded = Inr d \<Longrightarrow>
   \<exists>event. NewEvent json_Marshal new_id now eventType aggregateID d = Inr event \<and>
           ParseEventData json_Unmarshal event = Inr d"
  by (simp add: NewEvent_def ParseEventData_def)

lemma roundtrip_email:
  "\<exists>event. NewEvent stub_Marshal_string ''uuid-2'' 1003 ''user.registered'' ''uuid-1''
               ''john.doe@example.com'' = Inr event \<and>
            ParseEventData stub_Unmarshal_string event = Inr ''john.doe@example.com''"
  by (simp add: NewEvent_def ParseEventData_def stub_Marshal_string_def stub_Unmarshal_string_def
      json_string_def escape_invalid_def ufffd_escape_def ufffd_utf8_def dq_def)

subsection \<open>Handlers that overrun the timeout\<close>

text \<open>
  A handler that never returns and a handler that gives up with the context's error when
  the timeout has passed are both redelivered; the handler that returns \<open>nil\<close> after 40
  seconds is acknowledged.
\<close>

lemma overrunning_handlers:
  "broker_after_reply (on_message stub_Unmarshal_Event hanging_handler msg0) = REDELIVER \<and>
   broker_after_reply (on_message stub_Unmarshal_Event cancelled_handler msg0) = REDELIVER \<and>
   broker_after_reply (on_message stub_Unmarshal_Event slow_handler msg0) = ACKNOWLEDGED"
  by (simp add: on_message_def broker_after_reply_def hanging_handler_def cancelled_handler_def
      slow_handler_def stub_defs)

section \<open>The application service\<close>

text \<open>
  C1. The claim: once the aggregate's state is persisted, a failing publish does not fail
  the operation. \<open>VerifyEmail\<close> at the input where it does: the store finds \<open>user0\<close> by its
  token, \<open>Update\<close> succeeds, and \<open>Publish\<close> fails. The operation returns the error of
  \<open>Publish\<close> to its caller, after the update went through.
\<close>

theorem VerifyEmail_fails_when_publish_fails:
  "UserService_VerifyEmail (repo_with user0) bus_down (rt_at 2000) ''uuid-0'' =
     (Return (Some (ExternalError ''nats: connection closed'')),
      [FindByVerificationTokenCall ''uuid-0'',
       UpdateCall user0_verified user0_verified None,
       PublishCall event_verified (Some (ExternalError ''nats: connection closed''))])"
  by (simp add: UserService_VerifyEmail_def repo_with_def bus_down_def rt_at_def user0_def
      user0_verified_def event_verified_def User_VerifyEmail_def NewEvent_def
      UserEmailVerifiedEvent_def data_of_def Let_def)

text \<open>
  C3, as stated, at the registration of John Doe with a failing bus. The aggregate as
  \<open>Save\<close> leaves it, before the fact is published, and the aggregate the operation returns,
  after it was published, are the same value \<open>user0\<close>: whatever one reads off the aggregate
  as its pending events, it cannot be one fact before the flush and none after.
\<close>

theorem RegisterUser_aggregate_same_before_and_after_flush:
  "UserService_RegisterUser repo_empty bus_down (rt_at 1000) cmd0 =
     ((Some user0, None),
      [FindByEmailCall ''john.doe@example.com'',
       SaveCall user0 user0 None,
       PublishCall event0 (Some (ExternalError ''nats: connection closed''))]) \<and>
   \<not> (\<exists>pending_events :: User \<Rightarrow> Event list.
         length (pending_events user0) = 1 \<and> length (pending_events user0) = 0)"
proof (intro conjI)
  show "UserService_RegisterUser repo_empty bus_down (rt_at 1000) cmd0 =
     ((Some user0, None),
      [FindByEmailCall ''john.doe@example.com'',
       SaveCall user0 user0 None,
       PublishCall event0 (Some (ExternalError ''nats: connection closed''))])"
    by (simp add: UserService_RegisterUser_def repo_empty_def bus_down_def rt_at_def cmd0_def
        user0_def event0_def fact0_def NewUser_def NewEvent_def UserRegisteredEvent_def
        data_of_def Let_def)
  show "\<not> (\<exists>pending_events :: User \<Rightarrow> Event list.
         length (pending_events user0) = 1 \<and> length (pending_events user0) = 0)"
    by auto
qed

text \<open>
  C3, amended. The \<open>User\<close> aggregate holds no event buffer. Once \<open>Save\<close> has succeeded,
  \<open>RegisterUser\<close> builds exactly one fact, \<open>user.registered\<close> for the saved user's id, hands it
  to \<open>Publish\<close> exactly once, and returns the saved user: whatever \<open>Publish\<close> answers, the
  result is the same and nothing is kept for later.
\<close>

theorem RegisterUser_publishes_one_fact:
  assumes "fst (repo_FindByEmail userRepo (reg_Email cmd)) = None"
    and "NewUser (rt_bcrypt rt) (rt_uuid rt 0) (rt_uuid rt 1) (rt_now rt 0) (rt_now rt 1)
           (reg_Email cmd) (reg_Password cmd) (reg_FirstName cmd) (reg_LastName cmd) = Inr created"
    and "repo_Save userRepo created = (saved, None)"
    and "rt_json_Marshal rt (FactUserRegistered
           \<lparr> ur_UserID = u_ID saved, ur_Email = u_Email saved,
             ur_FirstName = u_FirstName saved, ur_LastName = u_LastName saved,
             ur_Role = u_Role saved, ur_VerificationToken = u_VerificationToken saved,
             ur_Timestamp = rt_now rt 2 \<rparr>) = Inr data"
    and "event = \<lparr> ev_ID = rt_uuid rt 2, ev_Type = UserRegisteredEvent,
           ev_AggregateID = u_ID saved, ev_Data = data, ev_Metadata = Map.empty,
           ev_Timestamp = rt_now rt 3 \<rparr>"
  shows "UserService_RegisterUser userRepo bus_Publish rt cmd =
     ((Some saved, None),
      [FindByEmailCall (reg_Email cmd), SaveCall created saved None,
       PublishCall event (bus_Publish event)])"
proof -
  obtain find_err where find: "repo_FindByEmail userRepo (reg_Email cmd) = (None, find_err)"
    using assms(1) by (cases "repo_FindByEmail userRepo (reg_Email cmd)") auto
  show ?thesis
    using assms(2-5) by (simp add: UserService_RegisterUser_def find NewEvent_def Let_def)
qed

text \<open>John Doe registers on an empty store while the bus is down.\<close>

theorem RegisterUser_publishes_one_fact_witness:
  "fst (repo_FindByEmail repo_empty (reg_Email cmd0)) = None \<and>
   NewUser (rt_bcrypt (rt_at 1000)) ''uuid-0'' ''uuid-1'' 1000 1001
     ''john.doe@example.com'' ''password123'' ''John'' ''Doe'' = Inr user0 \<and>
   repo_Save repo_empty user0 = (user0, None) \<and>
   UserService_RegisterUser repo_empty bus_down (rt_at 1000) cmd0 =
     ((Some user0, None),
      [FindByEmailCall ''john.doe@example.com'', SaveCall user0 user0 None,
       PublishCall event0 (bus_down event0)])"
proof -
  have find: "fst (repo_FindByEmail repo_empty (reg_Email cmd0)) = None"
    by (simp add: repo_empty_def)
  have new: "NewUser (rt_bcrypt (rt_at 1000)) (rt_uuid (rt_at 1000) 0) (rt_uuid (rt_at 1000) 1)
      (rt_now (rt_at 1000) 0) (rt_now (rt_at 1000) 1)
      (reg_Email cmd0) (reg_Password cmd0) (reg_FirstName cmd0) (reg_LastName cmd0) = Inr user0"
    by (simp add: NewUser_def rt_at_def cmd0_def user0_def)
  have save: "repo_Save repo_empty user0 = (user0, None)"
    by (simp add: repo_empty_def)
  have marshal: "rt_json_Marshal (rt_at 1000) (FactUserRegistered
           \<lparr> ur_UserID = u_ID user0, ur_Email = u_Email user0,
             ur_FirstName = u_FirstName user0, ur_LastName = u_LastName user0,
             ur_Role = u_Role user0, ur_VerificationToken = u_VerificationToken user0,
             ur_Timestamp = rt_now (rt_at 1000) 2 \<rparr>) = Inr (ev_Data event0)"
    by (simp add: rt_at_def user0_def event0_def fact0_def data_of_def)
  have ev: "event0 = \<lparr> ev_ID = rt_uuid (rt_at 1000) 2, ev_Type = UserRegisteredEvent,
           ev_AggregateID = u_ID user0, ev_Data = ev_Data event0, ev_Metadata = Map.empty,
           ev_Timestamp = rt_now (rt_at 1000) 3 \<rparr>"
    by (simp add: rt_at_def user0_def event0_def UserRegisteredEvent_def)
  from RegisterUser_publishes_one_fact [OF find new save marshal ev, of bus_down]
  have "UserService_RegisterUser repo_empty bus_down (rt_at 1000) cmd0 =
     ((Some user0, None),
      [FindByEmailCall (reg_Email cmd0), SaveCall user0 user0 None,
       PublishCall event0 (bus_down event0)])" .
  moreover have "reg_Email cmd0 = ''john.doe@example.com''" by (simp add: cmd0_def)
  moreover have "NewUser (rt_bcrypt (rt_at 1000)) ''uuid-0'' ''uuid-1'' 1000 1001
     ''john.doe@example.com'' ''password123'' ''John'' ''Doe'' = Inr user0"
    using new by (simp add: rt_at_def cmd0_def)
  ultimately show ?thesis using find save by simp
qed

section \<open>The NATS event bus\<close>

text \<open>
  C2. The claim: two \<open>Subscribe\<close> calls for one event type are two independent durable
  consumers, each receiving every envelope. The notifications and the analytics handler
  subscribe to \<open>user.registered\<close>: both requests carry the durable name
  \<open>dongome-user.registered\<close>, so they are one durable consumer, and of one published
  envelope the broker delivers a single copy, here to the first of the two.
\<close>

theorem two_subscriptions_one_durable_consumer:
  "sub_durable (fst (NATSEventBus_Subscribe stub_Unmarshal_Event js_Subscribe_ok
      UserRegisteredEvent notifications_handler)) = ''dongome-user.registered'' \<and>
   sub_durable (fst (NATSEventBus_Subscribe stub_Unmarshal_Event js_Subscribe_ok
      UserRegisteredEvent analytics_handler)) = ''dongome-user.registered'' \<and>
   receivers hd
     [fst (NATSEventBus_Subscribe stub_Unmarshal_Event js_Subscribe_ok
        UserRegisteredEvent notifications_handler),
      fst (NATSEventBus_Subscribe stub_Unmarshal_Event js_Subscribe_ok
        UserRegisteredEvent analytics_handler)]
     ''events.user.registered'' = [0]"
  using Subscribe_same_type_one_receiver [of hd stub_Unmarshal_Event js_Subscribe_ok
      UserRegisteredEvent notifications_handler stub_Unmarshal_Event js_Subscribe_ok analytics_handler]
  by (simp add: NATSEventBus_Subscribe_def UserRegisteredEvent_def Let_def)

text \<open>
  C4, as stated, at a broker that refuses the write: \<open>PublishAsync\<close> hands back a future
  that resolves to the refusal and no error of its own, and \<open>Publish\<close> returns success.
\<close>

theorem Publish_succeeds_though_broker_refuses:
  "pub_error (NATSEventBus_Publish stub_Marshal_Event js_refusing ''uuid-9'' 3000 event0) = None \<and>
   pub_sent (NATSEventBus_Publish stub_Marshal_Event js_refusing ''uuid-9'' 3000 event0) =
     [(''events.user.registered'', wire0, Refused (ExternalError ''nats: no response from stream''))]"
  by (simp add: NATSEventBus_Publish_def IsZero_def stub_defs)

text \<open>
  C4, amended. \<open>Publish\<close> returns the error of \<open>json.Marshal\<close> if encoding the envelope
  fails, and otherwise exactly the error \<open>PublishAsync\<close> returns when it hands the message to
  the client: success means the client took the message, and the broker's answer, which
  arrives in the future, is never read.
\<close>

theorem Publish_error_is_the_clients:
  "pub_error (NATSEventBus_Publish json_Marshal js_PublishAsync new_id now e) =
     (case json_Marshal (pub_event (NATSEventBus_Publish json_Marshal js_PublishAsync new_id now e)) of
        Inl err \<Rightarrow> Some err
      | Inr data \<Rightarrow> snd (js_PublishAsync (''events.'' @ ev_Type e) data))"
  by (simp add: NATSEventBus_Publish_def Let_def split: sum.splits prod.splits)

text \<open>
  C5, as stated, at a handler that ignores its context and returns \<open>nil\<close> after 40 seconds,
  past the 30 second timeout: the message is acknowledged.
\<close>

theorem slow_handler_is_acknowledged:
  "handler_timeout_ms < 40000 \<and>
   slow_handler handler_timeout_ms event0 = Returns 40000 None \<and>
   on_message stub_Unmarshal_Event slow_handler msg0 = Some Ack"
  by (simp add: on_message_def slow_handler_def handler_timeout_ms_def stub_defs)

text \<open>
  C5, amended. A delivered message is acknowledged exactly when its payload decodes and
  the handler returns \<open>nil\<close>, however long the handler took; the timeout reaches the handler
  as its context and nothing else enforces it. No reply at all is sent exactly when the
  handler never returns or panics. Every envelope that is not acknowledged, whether the
  subscription answered \<open>Nak\<close> or nothing, is redelivered by the broker rather than dropped.
\<close>

theorem acknowledged_iff_handler_returns_nil:
  "(on_message json_Unmarshal handler msg = Some Ack) =
     (\<exists>event elapsed. json_Unmarshal (msg_Data msg) = Inr event \<and>
        handler handler_timeout_ms event = Returns elapsed None) \<and>
   (on_message json_Unmarshal handler msg = None) =
     (\<exists>event. json_Unmarshal (msg_Data msg) = Inr event \<and>
        (handler handler_timeout_ms event = NeverReturns \<or>
         handler handler_timeout_ms event = Panics)) \<and>
   broker_after_reply (on_message json_Unmarshal handler msg) =
     (if on_message json_Unmarshal handler msg = Some Ack then ACKNOWLEDGED else REDELIVER)"
  by (auto simp: on_message_def broker_after_reply_def
      split: sum.splits HandlerRun.splits option.splits)

text \<open>
  C6, as stated, at a payload that is not JSON: the subscription answers \<open>Nak\<close>, the answer
  it gives when a handler fails, and the broker schedules the message for redelivery.
\<close>

theorem undecodable_message_is_redelivered:
  "stub_Unmarshal_Event (msg_Data msg_bad) = Inl (ExternalError ''invalid character'') \<and>
   on_message stub_Unmarshal_Event notifications_handler msg_bad = Some Nak \<and>
   on_message stub_Unmarshal_Event failing_handler msg0 = Some Nak \<and>
   broker_after_reply (on_message stub_Unmarshal_Event notifications_handler msg_bad) = REDELIVER"
  by (simp add: on_message_def broker_after_reply_def failing_handler_def stub_defs)

text \<open>
  C6, amended. For a delivered message whose payload cannot be decoded, the handler is
  not run and the subscription answers with a negative acknowledgement, as it does for a
  handler failure, so the message is scheduled for redelivery.
\<close>

theorem undecodable_message_nak:
  "json_Unmarshal (msg_Data msg) = Inl err \<Longrightarrow>
   on_message json_Unmarshal handler msg = Some Nak \<and>
   on_message json_Unmarshal handler msg = on_message json_Unmarshal any_handler msg \<and>
   broker_after_reply (on_message json_Unmarshal handler msg) = REDELIVER"
  by (simp add: on_message_def broker_after_reply_def)

text \<open>The message \<open>msg_bad\<close> carries \<open>not json\<close>.\<close>

theorem undecodable_message_nak_witness:
  "stub_Unmarshal_Event (msg_Data msg_bad) = Inl (ExternalError ''invalid character'') \<and>
   on_message stub_Unmarshal_Event slow_handler msg_bad = Some Nak \<and>
   broker_after_reply (on_message stub_Unmarshal_Event slow_handler msg_bad) = REDELIVER"
proof -
  have bad: "stub_Unmarshal_Event (msg_Data msg_bad) = Inl (ExternalError ''invalid character'')"
    by (simp add: stub_defs)
  from undecodable_message_nak
    [where json_Unmarshal = stub_Unmarshal_Event and msg = msg_bad and handler = slow_handler
       and err = "ExternalError ''invalid character''"]
    bad show ?thesis by blast
qed

text \<open>
  C7. The subject \<open>Publish\<close> sends an envelope to is \<open>events.\<close> followed by the envelope's
  type (it sends nothing when encoding fails), and the subject \<open>Subscribe\<close> listens on for
  that type is the same string.
\<close>

theorem topic_is_events_dot_type:
  "map fst (pub_sent (NATSEventBus_Publish json_Marshal js_PublishAsync new_id now e)) =
     (case json_Marshal (pub_event (NATSEventBus_Publish json_Marshal js_PublishAsync new_id now e)) of
        Inl err \<Rightarrow> [] | Inr data \<Rightarrow> [''events.'' @ ev_Type e]) \<and>
   sub_subject (fst (NATSEventBus_Subscribe json_Unmarshal js_Subscribe (ev_Type e) handler)) =
     ''events.'' @ ev_Type e"
  by (simp add: NATSEventBus_Publish_def NATSEventBus_Subscribe_def Let_def
      split: sum.splits prod.splits)

text \<open>
  C8, as stated, at the Go string that holds the single byte \<open>0xFF\<close>. The value is
  JSON-serializable: \<open>json.Marshal\<close> encodes it, writing the escape of U+FFFD for the byte,
  and \<open>NewEvent\<close> succeeds. \<open>ParseEventData\<close> on that event gives back the three bytes of
  U+FFFD, not the value the event was built from.
\<close>

theorem roundtrip_loses_invalid_utf8:
  "stub_Marshal_string [CHR 0xFF] = Inr (dq # ufffd_escape @ [dq]) \<and>
   NewEvent stub_Marshal_string ''uuid-2'' 1003 ''user.registered'' ''uuid-1'' [CHR 0xFF] =
     Inr event_ff \<and>
   ParseEventData stub_Unmarshal_string event_ff = Inr ufffd_utf8 \<and>
   ufffd_utf8 \<noteq> [CHR 0xFF]"
  by (simp add: NewEvent_def ParseEventData_def stub_Marshal_string_def stub_Unmarshal_string_def
      event_ff_def json_string_def escape_invalid_def ufffd_escape_def ufffd_utf8_def dq_def)

text \<open>
  C8, amended. For every value \<open>d\<close>: \<open>NewEvent\<close> fails with the error of \<open>json.Marshal\<close> when
  encoding \<open>d\<close> fails; otherwise it returns an event whose \<open>Data\<close> is exactly the encoding, and
  \<open>ParseEventData\<close> on that event returns exactly what \<open>json.Unmarshal\<close> returns on the
  encoding. The envelope adds and loses nothing: \<open>d\<close> comes back precisely when the codec
  itself gives \<open>d\<close> back from its encoding.
\<close>

theorem ParseEventData_NewEvent:
  "(case json_Marshal d of
      Inl err \<Rightarrow> NewEvent json_Marshal new_id now eventType aggregateID d = Inl err
    | Inr encoded \<Rightarrow>
        (\<exists>event. NewEvent json_Marshal new_id now eventType aggregateID d = Inr event \<and>
           ev_Data event = encoded \<and>
           ParseEventData json_Unmarshal event = json_Unmarshal encoded))"
  by (simp add: NewEvent_def ParseEventData_def split: sum.splits)

section \<open>The User aggregate: a failed upgrade changes nothing\<close>

text \<open>
  C9. Whenever \<open>User.UpgradeToSeller\<close> returns an error (the user is already a seller, or
  the email is not verified), the user it was called on is unchanged: the value after the
  call equals the value before it, in every field.
\<close>

theorem UpgradeToSeller_error_unchanged:
  "User_UpgradeToSeller new_id now1 now2 now3 u businessName businessAddress = (u', Some err)
   \<Longrightarrow> u' = u"
  by (auto simp: User_UpgradeToSeller_def split: if_splits)

text \<open>
  The unverified \<open>user0\<close> asks for the upgrade: the call fails and \<open>user0\<close> is what it was.
\<close>

theorem UpgradeToSeller_error_unchanged_witness:
  "User_UpgradeToSeller ''uuid-0'' 2000 2001 2002 user0 ''Test Business'' ''123 Business St''
     = (user0, Some (ValidationError ''email must be verified to become a seller''))"
proof -
  obtain u' where run:
    "User_UpgradeToSeller ''uuid-0'' 2000 2001 2002 user0 ''Test Business'' ''123 Business St''
       = (u', Some (ValidationError ''email must be verified to become a seller''))"
    by (simp add: User_UpgradeToSeller_def user0_def UserRoleBuyer_def UserRoleSeller_def)
  from UpgradeToSeller_error_unchanged [OF run] have "u' = user0" .
  with run show ?thesis by simp
qed

section \<open>The Listing aggregate: the favourites counter\<close>

text \<open>
  C10, as stated, at its boundary. A listing whose counter is the largest Go \<open>int\<close>
  satisfies \<open>FavoritesCount >= 0\<close>; \<open>IncrementFavorites\<close> wraps the counter around to the
  smallest \<open>int\<close>, so the operation does not preserve the invariant there.
\<close>

theorem IncrementFavorites_overflow_counterexample:
  "FavoritesCount_nonneg listing_max \<and>
   \<not> FavoritesCount_nonneg (Listing_IncrementFavorites 2000 listing_max)"
  by (simp add: FavoritesCount_nonneg_def Listing_IncrementFavorites_def listing_max_def
      MaxInt_def)

text \<open>
  C10, amended. \<open>FavoritesCount >= 0\<close> holds for every listing \<open>NewListing\<close> returns. Every
  operation of \<open>Listing\<close> preserves it, \<open>IncrementFavorites\<close> whenever the counter is below the
  largest \<open>int\<close>, the others always. \<open>DecrementFavorites\<close> never takes the counter below
  zero, however many times it is called in a row.
\<close>

theorem FavoritesCount_nonneg_invariant:
  "(NewListing expiresAt new_id now1 now2 sellerID categoryID title description price condition
      location = Inr l0 \<longrightarrow> FavoritesCount_nonneg l0) \<and>
   (FavoritesCount_nonneg l \<longrightarrow>
      FavoritesCount_nonneg (fst (Listing_Activate now l)) \<and>
      FavoritesCount_nonneg (Listing_Deactivate now l) \<and>
      FavoritesCount_nonneg (Listing_MarkAsSold now l) \<and>
      FavoritesCount_nonneg (Listing_IncrementViews now l) \<and>
      FavoritesCount_nonneg (Listing_AddImage new_id now1 now2 l url caption) \<and>
      FavoritesCount_nonneg (Listing_AddAttribute new_id now1 now2 l k v) \<and>
      FavoritesCount_nonneg (Listing_Promote promotedUntil now l) \<and>
      FavoritesCount_nonneg (Listing_DecrementFavorites now l) \<and>
      FavoritesCount_nonneg (fold Listing_DecrementFavorites nows l) \<and>
      (sint (l_FavoritesCount l) < 2 ^ 63 - 1 \<longrightarrow>
         FavoritesCount_nonneg (Listing_IncrementFavorites now l)))"
proof (intro conjI impI)
  assume "NewListing expiresAt new_id now1 now2 sellerID categoryID title description price
    condition location = Inr l0"
  then show "FavoritesCount_nonneg l0" by (rule NewListing_nonneg)
qed (simp_all add: other_operations_nonneg DecrementFavorites_nonneg
    DecrementFavorites_fold_nonneg IncrementFavorites_nonneg)

text \<open>
  \<open>listing0\<close> comes from \<open>NewListing\<close>; one favourite is added and then removed three times.
\<close>

theorem FavoritesCount_nonneg_invariant_witness:
  "NewListing 2593000 ''L1'' 1000 1001 ''uuid-1'' ''C1'' ''Bicycle'' ''A red bicycle'' 250 ''good''
     location0 = Inr listing0 \<and>
   FavoritesCount_nonneg listing0 \<and>
   sint (l_FavoritesCount listing0) < 2 ^ 63 - 1 \<and>
   FavoritesCount_nonneg (Listing_IncrementFavorites 2000 listing0) \<and>
   FavoritesCount_nonneg (Listing_DecrementFavorites 2000 listing0) \<and>
   FavoritesCount_nonneg
     (fold Listing_DecrementFavorites [2001, 2002, 2003] (Listing_IncrementFavorites 2000 listing0))"
proof -
  have small: "sint (l_FavoritesCount listing0) < 2 ^ 63 - 1"
    by (simp add: listing0_def)
  have inv0: "FavoritesCount_nonneg listing0"
    using FavoritesCount_nonneg_invariant
      [of 2593000 "''L1''" 1000 1001 "''uuid-1''" "''C1''" "''Bicycle''" "''A red bicycle''" 250
        "''good''" location0 listing0]
      NewListing_listing0 by blast
  have inc: "FavoritesCount_nonneg (Listing_IncrementFavorites 2000 listing0)"
    and dec: "FavoritesCount_nonneg (Listing_DecrementFavorites 2000 listing0)"
    using FavoritesCount_nonneg_invariant [where l = listing0 and now = 2000] inv0 small
    by blast+
  have "FavoritesCount_nonneg
     (fold Listing_DecrementFavorites [2001, 2002, 2003] (Listing_IncrementFavorites 2000 listing0))"
    using FavoritesCount_nonneg_invariant
      [where l = "Listing_IncrementFavorites 2000 listing0" and nows = "[2001, 2002, 2003]"] inc
    by blast
  with NewListing_listing0 inv0 small inc dec show ?thesis by blast
qed

end
